theory Spec2Isabelle
  imports Complex_Main
begin

section \<open>QueryVault client: citation navigation, transcript and bookmarks\<close>

text \<open>
  A shallow embedding of the React client's stateful core. Every \<open>useState\<close> cell is a
  field of a record, every event handler is a function from the state before the event
  to the state after it, and every value the handler reads from its environment
  (\<open>Date.now()\<close>, the answer service's reply, the pointer position) is an argument.
  JavaScript numbers that hold ids, pages and clock readings are \<open>int\<close>; numbers that
  hold seconds of video or percentages of width are \<open>real\<close>.
\<close>

subsection \<open>Sources returned by the answer service\<close>

text \<open>
  One element of \<open>response.sources\<close>, with the fields the client's handlers read.
  \<open>page\<close> and \<open>filename\<close> are read only when \<open>type\<close> is the PDF tag, \<open>timestamp\<close>
  and \<open>video_url\<close> only when it is the YouTube tag.
\<close>

record source =
  src_type :: string
  src_page :: int
  src_filename :: string
  src_timestamp :: real
  src_video_url :: string
  src_text :: string

subsection \<open>Bookmark store (contexts/BookmarkContext.jsx)\<close>

text \<open>
  The object that \<open>Message\<close> hands to \<open>BookmarkButton\<close>:
  \<open>{id, question, answer, sources}\<close>.
\<close>

record bookmark_message =
  bm_id :: int
  bm_question :: "string option"
  bm_answer :: string
  bm_sources :: "source list option"

text \<open>A stored bookmark: \<open>{...message, bookmarkedAt: Date.now()}\<close>.\<close>

record bookmark =
  bk_id :: int
  bk_question :: "string option"
  bk_answer :: string
  bk_sources :: "source list option"
  bookmarkedAt :: int

definition snapshot :: "bookmark_message \<Rightarrow> int \<Rightarrow> bookmark" where
  "snapshot message now =
     \<lparr>bk_id = bm_id message, bk_question = bm_question message,
      bk_answer = bm_answer message, bk_sources = bm_sources message,
      bookmarkedAt = now\<rparr>"

text \<open>
  \<open>addBookmark\<close>: \<open>prev.some(b => b.id === message.id)\<close> returns \<open>prev\<close> itself,
  otherwise the snapshot is appended. \<open>now\<close> is the reading of \<open>Date.now()\<close>.
\<close>

definition addBookmark :: "bookmark_message \<Rightarrow> int \<Rightarrow> bookmark list \<Rightarrow> bookmark list" where
  "addBookmark message now prev =
     (if list_ex (\<lambda>b. bk_id b = bm_id message) prev then prev
      else prev @ [snapshot message now])"

definition removeBookmark :: "int \<Rightarrow> bookmark list \<Rightarrow> bookmark list" where
  "removeBookmark messageId prev = filter (\<lambda>b. bk_id b \<noteq> messageId) prev"

definition isBookmarked :: "bookmark list \<Rightarrow> int \<Rightarrow> bool" where
  "isBookmarked bookmarks messageId = list_ex (\<lambda>b. bk_id b = messageId) bookmarks"

definition clearBookmarks :: "bookmark list \<Rightarrow> bookmark list" where
  "clearBookmarks prev = []"

text \<open>
  A sequence of \<open>addBookmark\<close> calls, each with its own clock reading, applied in order.
\<close>

fun add_sequence :: "bookmark list \<Rightarrow> (bookmark_message \<times> int) list \<Rightarrow> bookmark list" where
  "add_sequence bs [] = bs"
| "add_sequence bs ((message, now) # rest) = add_sequence (addBookmark message now bs) rest"

text \<open>
  \<open>BookmarkButton.handleClick\<close>: \<open>bookmarked\<close> is \<open>isBookmarked(message.id)\<close> of the
  render the click happens in.
\<close>

definition BookmarkButton_handleClick ::
  "bookmark_message \<Rightarrow> int \<Rightarrow> bookmark list \<Rightarrow> bookmark list" where
  "BookmarkButton_handleClick message now bookmarks =
     (if isBookmarked bookmarks (bm_id message) then removeBookmark (bm_id message) bookmarks
      else addBookmark message now bookmarks)"

subsection \<open>Transcript (components/chat/ChatContainer.jsx)\<close>

datatype role = User | Assistant

text \<open>
  A transcript message. The user message and the error message are built without a
  \<open>question\<close>, the user message without \<open>sources\<close>: \<open>None\<close> is the absent field.
\<close>

record message =
  msg_id :: int
  msg_role :: role
  msg_content :: string
  msg_question :: "string option"
  msg_sources :: "source list option"

record chat =
  messages :: "message list"
  loading :: bool

definition chat_init :: chat where
  "chat_init = \<lparr>messages = [], loading = False\<rparr>"

text \<open>
  What \<open>await queryDocuments(question, 3)\<close> gives back: a reply with \<open>answer\<close> and
  (possibly absent) \<open>sources\<close>, or a thrown error with its \<open>message\<close>.
\<close>

datatype outcome = Answered string "source list option" | Failed string

text \<open>
  \<open>handleSend\<close> up to its \<open>await\<close>: the user message gets \<open>Date.now()\<close> as id, here
  \<open>now\<close>, and \<open>loading\<close> is raised.
\<close>

definition handleSend_begin :: "string \<Rightarrow> int \<Rightarrow> chat \<Rightarrow> chat" where
  "handleSend_begin question now s =
     s\<lparr>messages := messages s @
          [\<lparr>msg_id = now, msg_role = User, msg_content = question,
            msg_question = None, msg_sources = None\<rparr>],
       loading := True\<rparr>"

text \<open>
  \<open>handleSend\<close> after its \<open>await\<close>: the \<open>try\<close> branch, the \<open>catch\<close> branch and the
  \<open>finally\<close>. \<open>now\<close> is the second reading of \<open>Date.now()\<close>;
  \<open>response.sources || []\<close> replaces absent sources by the empty list.
\<close>

definition handleSend_settle :: "string \<Rightarrow> outcome \<Rightarrow> int \<Rightarrow> chat \<Rightarrow> chat" where
  "handleSend_settle question res now s =
     (case res of
        Answered answer srcs \<Rightarrow>
          s\<lparr>messages := messages s @
               [\<lparr>msg_id = now + 1, msg_role = Assistant, msg_content = answer,
                 msg_question = Some question,
                 msg_sources = Some (case srcs of None \<Rightarrow> [] | Some l \<Rightarrow> l)\<rparr>],
            loading := False\<rparr>
      | Failed err \<Rightarrow>
          s\<lparr>messages := messages s @
               [\<lparr>msg_id = now + 1, msg_role = Assistant,
                 msg_content = ''Sorry, I encountered an error: '' @ err @ ''. Please try again.'',
                 msg_question = None, msg_sources = Some []\<rparr>],
            loading := False\<rparr>)"

definition handleSend :: "string \<Rightarrow> int \<Rightarrow> outcome \<Rightarrow> int \<Rightarrow> chat \<Rightarrow> chat" where
  "handleSend question t_sent res t_settled s =
     handleSend_settle question res t_settled (handleSend_begin question t_sent s)"

text \<open>
  Questions asked one after the other (the input is disabled while \<open>loading\<close>), each
  with its question, the clock when sent, the outcome and the clock when settled.
\<close>

fun ask_sequence :: "chat \<Rightarrow> (string \<times> int \<times> outcome \<times> int) list \<Rightarrow> chat" where
  "ask_sequence s [] = s"
| "ask_sequence s ((question, t_sent, res, t_settled) # rest) =
     ask_sequence (handleSend question t_sent res t_settled s) rest"

text \<open>
  A run of questions whose clock readings are spaced out: each question is sent after
  \<open>bound\<close>, no reply settles before its question was sent, and the next question is sent
  after the id of the reply before it.
\<close>

fun well_spaced :: "int \<Rightarrow> (string \<times> int \<times> outcome \<times> int) list \<Rightarrow> bool" where
  "well_spaced bound [] = True"
| "well_spaced bound ((question, t_sent, res, t_settled) # rest) =
     (bound < t_sent \<and> t_sent \<le> t_settled \<and> well_spaced (t_settled + 1) rest)"

subsection \<open>Session: SplitViewChat with its two viewers\<close>

text \<open>
  Modelled from the spec: \<open>utils/constants\<close> is not among the sources. Its
  \<open>SPLIT_VIEW_MODES\<close> has the two members \<open>PDF\<close> and \<open>YOUTUBE\<close> that \<open>Upload.jsx\<close>
  puts into the session descriptor (the spec's content kinds DOCUMENT and STREAM),
  and its \<open>SOURCE_TYPES\<close> are the tags \<open>"pdf"\<close> and \<open>"youtube"\<close> of the answer service's
  \<open>type\<close> field.
\<close>

datatype split_view_mode = MODE_PDF | MODE_YOUTUBE

definition SOURCE_TYPES_PDF :: string where
  "SOURCE_TYPES_PDF = ''pdf''"

definition SOURCE_TYPES_YOUTUBE :: string where
  "SOURCE_TYPES_YOUTUBE = ''youtube''"

text \<open>
  The two objects \<open>SourceCard.handleClick\<close> passes to \<open>onNavigate\<close>:
  \<open>{type: 'pdf', page, filename}\<close> and \<open>{type: 'youtube', timestamp, videoUrl}\<close>.
\<close>

datatype nav_target = PdfTarget int string | YoutubeTarget real string

definition SourceCard_handleClick :: "source \<Rightarrow> nav_target option" where
  "SourceCard_handleClick src =
     (if src_type src = SOURCE_TYPES_PDF then Some (PdfTarget (src_page src) (src_filename src))
      else if src_type src = SOURCE_TYPES_YOUTUBE
        then Some (YoutubeTarget (src_timestamp src) (src_video_url src))
      else None)"

text \<open>
  The state of one chat screen. \<open>currentPage\<close>, \<open>currentTimestamp\<close> and
  \<open>youtubePlayerRef\<close> belong to \<open>SplitViewChat\<close>; \<open>pageNumber\<close>, \<open>numPages\<close>,
  \<open>pdf_loading\<close> and \<open>pdf_error\<close> to \<open>PDFViewer\<close>; \<open>player\<close> to \<open>YouTubePlayer\<close>
  (\<open>True\<close> once the state holds the player object, \<open>False\<close> while it is \<open>null\<close>);
  \<open>yt_position\<close> and \<open>yt_playing\<close> are the position and play state of the IFrame
  player object itself. \<open>youtubePlayerRef\<close> is \<open>None\<close> while \<open>ref.current\<close> is
  \<open>null\<close>; otherwise it holds the \<open>{seekTo}\<close> object, of which the model keeps the
  value of \<open>player\<close> that the \<open>seekTo\<close> closure captured.
\<close>

record session =
  mode :: split_view_mode
  currentPage :: int
  currentTimestamp :: real
  youtubePlayerRef :: "bool option"
  pageNumber :: int
  numPages :: "int option"
  pdf_loading :: bool
  pdf_error :: "string option"
  player :: bool
  yt_position :: real
  yt_playing :: bool

text \<open>
  The screen as mounted: \<open>useState(1)\<close>, \<open>useState(0)\<close>, \<open>useRef(null)\<close> in
  \<open>SplitViewChat\<close>; \<open>useState(initialPage)\<close>, \<open>useState(null)\<close>, \<open>useState(true)\<close> in
  \<open>PDFViewer\<close>; \<open>useState(null)\<close> in \<open>YouTubePlayer\<close>, whose player starts at
  \<open>initialTimestamp\<close> without autoplay.
\<close>

definition session_init :: "split_view_mode \<Rightarrow> session" where
  "session_init m =
     \<lparr>mode = m, currentPage = 1, currentTimestamp = 0, youtubePlayerRef = None,
      pageNumber = 1, numPages = None, pdf_loading = True, pdf_error = None,
      player = False, yt_position = 0, yt_playing = False\<rparr>"

subsubsection \<open>PDFViewer (components/viewers/PDFViewer.jsx)\<close>

text \<open>
  The effect on \<open>[initialPage]\<close>; the prop \<open>initialPage\<close> is the parent's \<open>currentPage\<close>.
  A number is falsy exactly when it is \<open>0\<close>.
\<close>

definition initialPage_effect :: "session \<Rightarrow> session" where
  "initialPage_effect s =
     (if currentPage s \<noteq> 0 \<and> currentPage s \<noteq> pageNumber s
      then s\<lparr>pageNumber := currentPage s\<rparr> else s)"

text \<open>
  The effect on \<open>[pageNumber, onPageChange]\<close>: \<open>onPageChange\<close> is the parent's
  \<open>setCurrentPage\<close>.
\<close>

definition pageNumber_effect :: "session \<Rightarrow> session" where
  "pageNumber_effect s = s\<lparr>currentPage := pageNumber s\<rparr>"

text \<open>
  \<open>setCurrentPage(n)\<close> in the parent followed by the effects it triggers. Setting the
  value the state already has triggers nothing. Otherwise \<open>initialPage\<close> has changed and
  its effect runs; if that changed \<open>pageNumber\<close>, the second effect reports it back,
  which sets \<open>currentPage\<close> to the value it has and ends the cascade.
\<close>

definition setCurrentPage :: "int \<Rightarrow> session \<Rightarrow> session" where
  "setCurrentPage n s =
     (if n = currentPage s then s
      else let s1 = initialPage_effect (s\<lparr>currentPage := n\<rparr>)
           in if pageNumber s1 = pageNumber s then s1 else pageNumber_effect s1)"

text \<open>
  \<open>setPageNumber(p)\<close> inside the viewer followed by the effects it triggers: the second
  effect sets the parent's \<open>currentPage\<close> to \<open>p\<close>, after which the first effect finds
  \<open>initialPage = pageNumber\<close> and does nothing.
\<close>

definition setPageNumber :: "int \<Rightarrow> session \<Rightarrow> session" where
  "setPageNumber p s =
     (if p = pageNumber s then s else pageNumber_effect (s\<lparr>pageNumber := p\<rparr>))"

definition onDocumentLoadSuccess :: "int \<Rightarrow> session \<Rightarrow> session" where
  "onDocumentLoadSuccess n s = s\<lparr>numPages := Some n, pdf_loading := False, pdf_error := None\<rparr>"

definition onDocumentLoadError :: "session \<Rightarrow> session" where
  "onDocumentLoadError s =
     s\<lparr>pdf_error := Some ''Failed to load PDF. Please try again.'', pdf_loading := False\<rparr>"

text \<open>In arithmetic and comparisons \<open>null\<close> counts as \<open>0\<close>.\<close>

definition numPages_number :: "session \<Rightarrow> int" where
  "numPages_number s = (case numPages s of None \<Rightarrow> 0 | Some n \<Rightarrow> n)"

definition goToPrevPage :: "session \<Rightarrow> session" where
  "goToPrevPage s = setPageNumber (max 1 (pageNumber s - 1)) s"

definition goToNextPage :: "session \<Rightarrow> session" where
  "goToNextPage s = setPageNumber (min (numPages_number s) (pageNumber s + 1)) s"

text \<open>
  The \<open>onChange\<close> of the page input; \<open>None\<close> is the \<open>NaN\<close> that \<open>parseInt\<close> gives on text
  that does not start with a number.
\<close>

definition pageInput_onChange :: "int option \<Rightarrow> session \<Rightarrow> session" where
  "pageInput_onChange parsed s =
     (case parsed of
        None \<Rightarrow> s
      | Some page \<Rightarrow> if page \<ge> 1 \<and> page \<le> numPages_number s then setPageNumber page s else s)"

subsubsection \<open>YouTubePlayer (components/viewers/YouTubePlayer.jsx)\<close>

text \<open>
  The two calls made on the IFrame player object, by their documented effect:
  \<open>seekTo\<close> moves the position, \<open>playVideo\<close> starts playback.
\<close>

definition yt_seekTo :: "real \<Rightarrow> session \<Rightarrow> session" where
  "yt_seekTo seconds s = s\<lparr>yt_position := seconds\<rparr>"

definition yt_playVideo :: "session \<Rightarrow> session" where
  "yt_playVideo s = s\<lparr>yt_playing := True\<rparr>"

text \<open>
  The component's \<open>seekTo\<close>; \<open>captured\<close> is the \<open>player\<close> of the render that made the
  closure (\<open>False\<close>: \<open>null\<close>).
\<close>

definition seekTo :: "bool \<Rightarrow> real \<Rightarrow> session \<Rightarrow> session" where
  "seekTo captured timestamp s =
     (if \<not> captured then s else yt_playVideo (yt_seekTo timestamp s))"

text \<open>
  The effect on \<open>[player, onTimeUpdate]\<close>: the parent's \<open>onTimeUpdate\<close> stores the
  \<open>{seekTo}\<close> object in \<open>youtubePlayerRef.current\<close>.
\<close>

definition expose_seekTo :: "session \<Rightarrow> session" where
  "expose_seekTo s = (if player s then s\<lparr>youtubePlayerRef := Some (player s)\<rparr> else s)"

text \<open>
  The player's \<open>onReady\<close> event, with the re-render and effect that \<open>setPlayer\<close> causes.
  \<open>initialTimestamp\<close> is the parent's \<open>currentTimestamp\<close>.
\<close>

definition onReady :: "session \<Rightarrow> session" where
  "onReady s =
     (let s1 = s\<lparr>player := True\<rparr>;
          s2 = (if currentTimestamp s1 > 0 then yt_seekTo (currentTimestamp s1) s1 else s1)
      in expose_seekTo s2)"

subsubsection \<open>Navigation (pages/SplitViewChat.jsx)\<close>

text \<open>
  \<open>handleSourceNavigate\<close>. \<open>youtubePlayerRef.current?.seekTo\<close> is falsy while the ref is
  \<open>null\<close>.
\<close>

definition handleSourceNavigate :: "nav_target \<Rightarrow> session \<Rightarrow> session" where
  "handleSourceNavigate target s =
     (case target of
        PdfTarget page filename \<Rightarrow>
          if mode s = MODE_PDF then setCurrentPage page s else s
      | YoutubeTarget timestamp videoUrl \<Rightarrow>
          if mode s = MODE_YOUTUBE then
            (case youtubePlayerRef s of
               None \<Rightarrow> s
             | Some captured \<Rightarrow> seekTo captured timestamp s)
          else s)"

text \<open>A click on a source card: \<open>onNavigate?.(...)\<close> on the object the card builds.\<close>

definition navigate :: "source \<Rightarrow> session \<Rightarrow> session" where
  "navigate src s =
     (case SourceCard_handleClick src of
        None \<Rightarrow> s
      | Some target \<Rightarrow> handleSourceNavigate target s)"

text \<open>A run of citation navigations, in order.\<close>

fun navigate_all :: "session \<Rightarrow> nav_target list \<Rightarrow> session" where
  "navigate_all s [] = s"
| "navigate_all s (target # rest) = navigate_all (handleSourceNavigate target s) rest"

subsection \<open>Split surface (components/layout/SplitView.jsx)\<close>

record split_view =
  leftWidth :: real
  isDragging :: bool

definition SplitView_init :: "real \<Rightarrow> split_view" where
  "SplitView_init defaultLeftWidth = \<lparr>leftWidth = defaultLeftWidth, isDragging = False\<rparr>"

text \<open>
  \<open>handleMouseMove\<close>. \<open>container\<close> is \<open>None\<close> when \<open>containerRef.current\<close> is \<open>null\<close>,
  otherwise the \<open>left\<close> and \<open>width\<close> of its bounding rectangle. With \<open>width = 0\<close> the
  quotient is an infinity or \<open>NaN\<close>, which fails the comparison with the bounds, so
  nothing is committed; HOL's \<open>x / 0 = 0\<close> must not stand in for that.
\<close>

definition handleMouseMove ::
  "real \<Rightarrow> real \<Rightarrow> (real \<times> real) option \<Rightarrow> real \<Rightarrow> split_view \<Rightarrow> split_view" where
  "handleMouseMove minWidth maxWidth container clientX s =
     (if \<not> isDragging s then s
      else case container of
        None \<Rightarrow> s
      | Some (left, width) \<Rightarrow>
          if width = 0 then s
          else let newWidth = ((clientX - left) / width) * 100
               in if newWidth \<ge> minWidth \<and> newWidth \<le> maxWidth
                  then s\<lparr>leftWidth := newWidth\<rparr> else s)"

definition handleMouseUp :: "split_view \<Rightarrow> split_view" where
  "handleMouseUp s = s\<lparr>isDragging := False\<rparr>"

definition onMouseDown :: "split_view \<Rightarrow> split_view" where
  "onMouseDown s = s\<lparr>isDragging := True\<rparr>"

definition rightWidth :: "split_view \<Rightarrow> real" where
  "rightWidth s = 100 - leftWidth s"

datatype pointer_event = MouseDown | MouseMove "(real \<times> real) option" real | MouseUp

text \<open>
  The document-level listeners are attached only while \<open>isDragging\<close>; in the other
  state a move or a release reaches no handler.
\<close>

fun pointer_step :: "real \<Rightarrow> real \<Rightarrow> split_view \<Rightarrow> pointer_event \<Rightarrow> split_view" where
  "pointer_step minWidth maxWidth s MouseDown = onMouseDown s"
| "pointer_step minWidth maxWidth s (MouseMove container clientX) =
     (if isDragging s then handleMouseMove minWidth maxWidth container clientX s else s)"
| "pointer_step minWidth maxWidth s MouseUp =
     (if isDragging s then handleMouseUp s else s)"

definition pointer_run ::
  "real \<Rightarrow> real \<Rightarrow> split_view \<Rightarrow> pointer_event list \<Rightarrow> split_view" where
  "pointer_run minWidth maxWidth s evs = foldl (pointer_step minWidth maxWidth) s evs"

section \<open>Properties\<close>

subsection \<open>Bookmark store\<close>

lemma isBookmarked_iff: "isBookmarked bs i \<longleftrightarrow> i \<in> bk_id ` set bs"
  by (auto simp: isBookmarked_def list_ex_iff)

lemma ids_addBookmark:
  "bk_id ` set (addBookmark m t bs) = insert (bm_id m) (bk_id ` set bs)"
proof (cases "isBookmarked bs (bm_id m)")
  case True
  then have "bm_id m \<in> bk_id ` set bs"
    by (simp add: isBookmarked_iff)
  with True show ?thesis
    by (simp add: addBookmark_def isBookmarked_def insert_absorb)
next
  case False
  then show ?thesis
    by (simp add: addBookmark_def isBookmarked_def snapshot_def)
qed

lemma distinct_addBookmark:
  "distinct (map bk_id bs) \<Longrightarrow> distinct (map bk_id (addBookmark m t bs))"
  by (auto simp: addBookmark_def snapshot_def list_ex_iff)

lemma ids_add_sequence:
  "bk_id ` set (add_sequence bs adds) = bk_id ` set bs \<union> (bm_id \<circ> fst) ` set adds"
  by (induction bs adds rule: add_sequence.induct) (auto simp: ids_addBookmark)

lemma distinct_add_sequence:
  "distinct (map bk_id bs) \<Longrightarrow> distinct (map bk_id (add_sequence bs adds))"
  by (induction bs adds rule: add_sequence.induct) (auto simp: distinct_addBookmark)

lemma find_snoc:
  "find P (xs @ [y]) =
     (case find P xs of Some x \<Rightarrow> Some x | None \<Rightarrow> if P y then Some y else None)"
  by (induction xs) auto

lemma find_addBookmark:
  "find (\<lambda>b. bk_id b = i) (addBookmark m t bs) =
     (case find (\<lambda>b. bk_id b = i) bs of
        Some b \<Rightarrow> Some b
      | None \<Rightarrow> if bm_id m = i then Some (snapshot m t) else None)"
proof (cases "find (\<lambda>b. bk_id b = i) bs")
  case None
  then have "\<not> list_ex (\<lambda>b. bk_id b = i) bs"
    by (simp add: find_None_iff list_ex_iff)
  with None show ?thesis
    by (simp add: addBookmark_def find_snoc snapshot_def)
next
  case (Some b)
  then show ?thesis
    by (simp add: addBookmark_def find_snoc)
qed

lemma find_add_sequence:
  "find (\<lambda>b. bk_id b = i) (add_sequence bs adds) =
     (case find (\<lambda>b. bk_id b = i) bs of
        Some b \<Rightarrow> Some b
      | None \<Rightarrow> map_option (\<lambda>(m, t). snapshot m t) (find (\<lambda>(m, t). bm_id m = i) adds))"
proof (induction bs adds rule: add_sequence.induct)
  case (1 bs)
  show ?case by (simp split: option.split)
next
  case (2 bs message now rest)
  show ?case
    unfolding add_sequence.simps "2.IH" find_addBookmark
    by (auto split: option.split)
qed

text \<open>
  C5. Starting from the empty store, after any sequence of \<open>addBookmark\<close> calls the
  store holds as many bookmarks as distinct ids were added, no id is stored twice, and
  the bookmark stored under an id is the snapshot made by the first call of the
  sequence with that id (with that call's clock reading).
\<close>

theorem addBookmark_sequence_first_wins:
  "length (add_sequence [] adds) = card ((bm_id \<circ> fst) ` set adds) \<and>
   distinct (map bk_id (add_sequence [] adds)) \<and>
   find (\<lambda>b. bk_id b = i) (add_sequence [] adds) =
     map_option (\<lambda>(m, t). snapshot m t) (find (\<lambda>(m, t). bm_id m = i) adds)"
proof (intro conjI)
  show d: "distinct (map bk_id (add_sequence [] adds))"
    by (rule distinct_add_sequence) simp
  have "card (set (map bk_id (add_sequence [] adds))) = length (map bk_id (add_sequence [] adds))"
    using d by (rule distinct_card)
  then show "length (add_sequence [] adds) = card ((bm_id \<circ> fst) ` set adds)"
    by (simp add: ids_add_sequence)
  show "find (\<lambda>b. bk_id b = i) (add_sequence [] adds) =
     map_option (\<lambda>(m, t). snapshot m t) (find (\<lambda>(m, t). bm_id m = i) adds)"
    by (simp add: find_add_sequence)
qed

lemma removeBookmark_not: "\<not> isBookmarked (removeBookmark i bs) i"
  by (auto simp: isBookmarked_iff removeBookmark_def)

lemma isBookmarked_removeBookmark_other:
  "j \<noteq> i \<Longrightarrow> isBookmarked (removeBookmark i bs) j = isBookmarked bs j"
  by (auto simp: isBookmarked_iff removeBookmark_def)

lemma isBookmarked_addBookmark:
  "isBookmarked (addBookmark m t bs) j \<longleftrightarrow> j = bm_id m \<or> isBookmarked bs j"
  by (auto simp: isBookmarked_iff ids_addBookmark)

lemma others_addBookmark:
  "filter (\<lambda>b. bk_id b \<noteq> bm_id m) (addBookmark m t bs) = filter (\<lambda>b. bk_id b \<noteq> bm_id m) bs"
  by (simp add: addBookmark_def snapshot_def)

lemma others_removeBookmark:
  "filter (\<lambda>b. bk_id b \<noteq> i) (removeBookmark i bs) = filter (\<lambda>b. bk_id b \<noteq> i) bs"
  by (simp add: removeBookmark_def)

lemma isBookmarked_click:
  "isBookmarked (BookmarkButton_handleClick m t bs) j =
     (if j = bm_id m then \<not> isBookmarked bs (bm_id m) else isBookmarked bs j)"
  by (simp add: BookmarkButton_handleClick_def removeBookmark_not
      isBookmarked_removeBookmark_other isBookmarked_addBookmark)

lemma others_click:
  "filter (\<lambda>b. bk_id b \<noteq> bm_id m) (BookmarkButton_handleClick m t bs) =
   filter (\<lambda>b. bk_id b \<noteq> bm_id m) bs"
  by (simp add: BookmarkButton_handleClick_def others_addBookmark others_removeBookmark)

text \<open>
  C10. One click of the bookmark button on a message flips whether its id is
  bookmarked: a present bookmark is removed, an absent one is added as a snapshot with
  the message's id, question, answer and sources. Bookmarks of other ids are left as
  they are, and a second click restores the membership of the message's id.
\<close>

theorem BookmarkButton_click_toggles:
  "isBookmarked (BookmarkButton_handleClick m t bs) (bm_id m) = (\<not> isBookmarked bs (bm_id m)) \<and>
   (isBookmarked bs (bm_id m) \<longrightarrow>
      BookmarkButton_handleClick m t bs = filter (\<lambda>b. bk_id b \<noteq> bm_id m) bs) \<and>
   (\<not> isBookmarked bs (bm_id m) \<longrightarrow>
      BookmarkButton_handleClick m t bs =
        bs @ [\<lparr>bk_id = bm_id m, bk_question = bm_question m, bk_answer = bm_answer m,
               bk_sources = bm_sources m, bookmarkedAt = t\<rparr>]) \<and>
   (j \<noteq> bm_id m \<longrightarrow> isBookmarked (BookmarkButton_handleClick m t bs) j = isBookmarked bs j) \<and>
   filter (\<lambda>b. bk_id b \<noteq> bm_id m) (BookmarkButton_handleClick m t bs) =
     filter (\<lambda>b. bk_id b \<noteq> bm_id m) bs \<and>
   isBookmarked (BookmarkButton_handleClick m t' (BookmarkButton_handleClick m t bs)) (bm_id m) =
     isBookmarked bs (bm_id m) \<and>
   (j \<noteq> bm_id m \<longrightarrow>
      isBookmarked (BookmarkButton_handleClick m t' (BookmarkButton_handleClick m t bs)) j =
        isBookmarked bs j) \<and>
   filter (\<lambda>b. bk_id b \<noteq> bm_id m)
       (BookmarkButton_handleClick m t' (BookmarkButton_handleClick m t bs)) =
     filter (\<lambda>b. bk_id b \<noteq> bm_id m) bs"
proof (intro conjI impI)
  show "isBookmarked (BookmarkButton_handleClick m t bs) (bm_id m) = (\<not> isBookmarked bs (bm_id m))"
    by (simp add: isBookmarked_click)
  show "BookmarkButton_handleClick m t bs = filter (\<lambda>b. bk_id b \<noteq> bm_id m) bs"
    if "isBookmarked bs (bm_id m)"
    using that by (simp add: BookmarkButton_handleClick_def removeBookmark_def)
  show "BookmarkButton_handleClick m t bs =
        bs @ [\<lparr>bk_id = bm_id m, bk_question = bm_question m, bk_answer = bm_answer m,
               bk_sources = bm_sources m, bookmarkedAt = t\<rparr>]"
    if "\<not> isBookmarked bs (bm_id m)"
    using that by (simp add: BookmarkButton_handleClick_def addBookmark_def isBookmarked_def snapshot_def)
  show "isBookmarked (BookmarkButton_handleClick m t bs) j = isBookmarked bs j" if "j \<noteq> bm_id m"
    using that by (simp add: isBookmarked_click)
  show "filter (\<lambda>b. bk_id b \<noteq> bm_id m) (BookmarkButton_handleClick m t bs) =
     filter (\<lambda>b. bk_id b \<noteq> bm_id m) bs"
    by (rule others_click)
  show "isBookmarked (BookmarkButton_handleClick m t' (BookmarkButton_handleClick m t bs)) (bm_id m) =
     isBookmarked bs (bm_id m)"
    by (simp add: isBookmarked_click)
  show "isBookmarked (BookmarkButton_handleClick m t' (BookmarkButton_handleClick m t bs)) j =
        isBookmarked bs j" if "j \<noteq> bm_id m"
    using that by (simp add: isBookmarked_click)
  show "filter (\<lambda>b. bk_id b \<noteq> bm_id m)
       (BookmarkButton_handleClick m t' (BookmarkButton_handleClick m t bs)) =
     filter (\<lambda>b. bk_id b \<noteq> bm_id m) bs"
    by (simp add: others_click)
qed

theorem BookmarkButton_click_toggles_witness:
  "\<not> isBookmarked
       [\<lparr>bk_id = 3, bk_question = Some ''p'', bk_answer = ''r'', bk_sources = Some [], bookmarkedAt = 10\<rparr>] 7 \<and>
   (3::int) \<noteq> 7 \<and>
   BookmarkButton_handleClick
       \<lparr>bm_id = 7, bm_question = Some ''q'', bm_answer = ''a'', bm_sources = Some []\<rparr> 20
       [\<lparr>bk_id = 3, bk_question = Some ''p'', bk_answer = ''r'', bk_sources = Some [], bookmarkedAt = 10\<rparr>] =
     [\<lparr>bk_id = 3, bk_question = Some ''p'', bk_answer = ''r'', bk_sources = Some [], bookmarkedAt = 10\<rparr>,
      \<lparr>bk_id = 7, bk_question = Some ''q'', bk_answer = ''a'', bk_sources = Some [], bookmarkedAt = 20\<rparr>] \<and>
   isBookmarked
       [\<lparr>bk_id = 3, bk_question = Some ''p'', bk_answer = ''r'', bk_sources = Some [], bookmarkedAt = 10\<rparr>,
        \<lparr>bk_id = 7, bk_question = Some ''q'', bk_answer = ''a'', bk_sources = Some [], bookmarkedAt = 20\<rparr>] 7 \<and>
   BookmarkButton_handleClick
       \<lparr>bm_id = 7, bm_question = Some ''q'', bm_answer = ''a'', bm_sources = Some []\<rparr> 30
       [\<lparr>bk_id = 3, bk_question = Some ''p'', bk_answer = ''r'', bk_sources = Some [], bookmarkedAt = 10\<rparr>,
        \<lparr>bk_id = 7, bk_question = Some ''q'', bk_answer = ''a'', bk_sources = Some [], bookmarkedAt = 20\<rparr>] =
     [\<lparr>bk_id = 3, bk_question = Some ''p'', bk_answer = ''r'', bk_sources = Some [], bookmarkedAt = 10\<rparr>] \<and>
   isBookmarked
       (BookmarkButton_handleClick
          \<lparr>bm_id = 7, bm_question = Some ''q'', bm_answer = ''a'', bm_sources = Some []\<rparr> 20
          [\<lparr>bk_id = 3, bk_question = Some ''p'', bk_answer = ''r'', bk_sources = Some [], bookmarkedAt = 10\<rparr>]) 3"
  using BookmarkButton_click_toggles
      [of "\<lparr>bm_id = 7, bm_question = Some ''q'', bm_answer = ''a'', bm_sources = Some []\<rparr>" 20
          "[\<lparr>bk_id = 3, bk_question = Some ''p'', bk_answer = ''r'', bk_sources = Some [], bookmarkedAt = 10\<rparr>]"
          3 30]
    BookmarkButton_click_toggles
      [of "\<lparr>bm_id = 7, bm_question = Some ''q'', bm_answer = ''a'', bm_sources = Some []\<rparr>" 30
          "[\<lparr>bk_id = 3, bk_question = Some ''p'', bk_answer = ''r'', bk_sources = Some [], bookmarkedAt = 10\<rparr>,
            \<lparr>bk_id = 7, bk_question = Some ''q'', bk_answer = ''a'', bk_sources = Some [], bookmarkedAt = 20\<rparr>]"
          3 40]
  by (simp add: isBookmarked_def)

subsection \<open>Transcript\<close>

text \<open>
  C8. When the answer service fails, \<open>handleSend\<close> leaves the earlier messages as they
  were and appends the user's question and one assistant message whose text carries
  the error's message and whose sources are empty; \<open>loading\<close> is cleared, and the next
  question is accepted and appended after them.
\<close>

theorem handleSend_failure_recovers:
  "messages (handleSend question t_sent (Failed err) t_settled s) =
     messages s @
       [\<lparr>msg_id = t_sent, msg_role = User, msg_content = question,
          msg_question = None, msg_sources = None\<rparr>,
        \<lparr>msg_id = t_settled + 1, msg_role = Assistant,
          msg_content = ''Sorry, I encountered an error: '' @ err @ ''. Please try again.'',
          msg_question = None, msg_sources = Some []\<rparr>] \<and>
   loading (handleSend question t_sent (Failed err) t_settled s) = False \<and>
   take (length (messages s)) (messages (handleSend question t_sent (Failed err) t_settled s)) =
     messages s \<and>
   messages (handleSend_begin question' t_sent'
               (handleSend question t_sent (Failed err) t_settled s)) =
     messages (handleSend question t_sent (Failed err) t_settled s) @
       [\<lparr>msg_id = t_sent', msg_role = User, msg_content = question',
          msg_question = None, msg_sources = None\<rparr>]"
  by (simp add: handleSend_def handleSend_begin_def handleSend_settle_def)

text \<open>
  Where the ids do come out in creation order: every question is sent after the
  previous reply's id (its clock reading plus one), and no reply settles before its
  question was sent.
\<close>

lemma ids_handleSend:
  "map msg_id (messages (handleSend question t_sent res t_settled s)) =
     map msg_id (messages s) @ [t_sent, t_settled + 1]"
  by (cases res) (simp_all add: handleSend_def handleSend_begin_def handleSend_settle_def)

lemma ids_ask_sequence_increasing:
  assumes "sorted_wrt (<) (map msg_id (messages s))"
    and "\<forall>i \<in> set (map msg_id (messages s)). i \<le> bound"
    and "well_spaced bound asks"
  shows "sorted_wrt (<) (map msg_id (messages (ask_sequence s asks)))"
  using assms
proof (induction asks arbitrary: s bound)
  case Nil
  then show ?case by simp
next
  case (Cons a asks)
  obtain question t_sent res t_settled where a: "a = (question, t_sent, res, t_settled)"
    by (cases a)
  let ?s' = "handleSend question t_sent res t_settled s"
  from Cons.prems(3) a have sp: "bound < t_sent" "t_sent \<le> t_settled" "well_spaced (t_settled + 1) asks"
    by simp_all
  have 1: "sorted_wrt (<) (map msg_id (messages ?s'))"
    using Cons.prems(1,2) sp(1,2) by (fastforce simp: ids_handleSend sorted_wrt_append)
  have 2: "\<forall>i \<in> set (map msg_id (messages ?s')). i \<le> t_settled + 1"
    using Cons.prems(2) sp(1,2) by (fastforce simp: ids_handleSend)
  show ?case
    unfolding a ask_sequence.simps by (rule Cons.IH [OF 1 2 sp(3)])
qed

text \<open>
  C2. The claim is that the ids given out over any run of questions are pairwise
  distinct and in creation order. Evaluated on the code: a first question sent at
  clock 1000 and answered at 1250 gives its reply the id 1251; a second question sent
  at clock 1251 gets the same id.
\<close>

theorem handleSend_ids_collide:
  "map msg_id (messages (ask_sequence chat_init
      [(''q1'', 1000, Answered ''a1'' None, 1250), (''q2'', 1251, Answered ''a2'' None, 1600)])) =
     [1000, 1251, 1251, 1601] \<and>
   \<not> distinct (map msg_id (messages (ask_sequence chat_init
      [(''q1'', 1000, Answered ''a1'' None, 1250), (''q2'', 1251, Answered ''a2'' None, 1600)])))"
  by (simp add: handleSend_def handleSend_begin_def handleSend_settle_def chat_init_def)

subsection \<open>Navigation\<close>

text \<open>
  C3. A citation whose kind does not match the session's mode changes nothing: a PDF
  target (or a source tagged \<open>pdf\<close>) in a YouTube session and a YouTube target (or a
  source tagged \<open>youtube\<close>) in a PDF session leave the whole session state, and with it
  the document page and the player position, as it was. The handlers have no raising
  branch.
\<close>

theorem navigate_mismatch_noop:
  "(mode s = MODE_YOUTUBE \<longrightarrow> handleSourceNavigate (PdfTarget page filename) s = s) \<and>
   (mode s = MODE_PDF \<longrightarrow> handleSourceNavigate (YoutubeTarget timestamp videoUrl) s = s) \<and>
   (mode s = MODE_YOUTUBE \<and> src_type src = ''pdf'' \<longrightarrow> navigate src s = s) \<and>
   (mode s = MODE_PDF \<and> src_type src = ''youtube'' \<longrightarrow> navigate src s = s)"
  by (simp add: handleSourceNavigate_def navigate_def SourceCard_handleClick_def
      SOURCE_TYPES_PDF_def SOURCE_TYPES_YOUTUBE_def)

theorem navigate_mismatch_noop_witness:
  "mode ((session_init MODE_YOUTUBE)\<lparr>youtubePlayerRef := Some True, player := True, yt_position := 40\<rparr>)
     = MODE_YOUTUBE \<and>
   navigate \<lparr>src_type = ''pdf'', src_page = 7, src_filename = ''a.pdf'', src_timestamp = 0,
             src_video_url = [], src_text = ''x''\<rparr>
       ((session_init MODE_YOUTUBE)\<lparr>youtubePlayerRef := Some True, player := True, yt_position := 40\<rparr>) =
     (session_init MODE_YOUTUBE)\<lparr>youtubePlayerRef := Some True, player := True, yt_position := 40\<rparr> \<and>
   mode (onDocumentLoadSuccess 9 (session_init MODE_PDF)) = MODE_PDF \<and>
   navigate \<lparr>src_type = ''youtube'', src_page = 0, src_filename = [], src_timestamp = 125,
             src_video_url = ''u'', src_text = ''x''\<rparr>
       (onDocumentLoadSuccess 9 (session_init MODE_PDF)) =
     onDocumentLoadSuccess 9 (session_init MODE_PDF)"
  using navigate_mismatch_noop
      [of "(session_init MODE_YOUTUBE)\<lparr>youtubePlayerRef := Some True, player := True, yt_position := 40\<rparr>"
          7 "''a.pdf''" 125 "''u''"
          "\<lparr>src_type = ''pdf'', src_page = 7, src_filename = ''a.pdf'', src_timestamp = 0,
             src_video_url = [], src_text = ''x''\<rparr>"]
    navigate_mismatch_noop
      [of "onDocumentLoadSuccess 9 (session_init MODE_PDF)" 7 "''a.pdf''" 125 "''u''"
          "\<lparr>src_type = ''youtube'', src_page = 0, src_filename = [], src_timestamp = 125,
             src_video_url = ''u'', src_text = ''x''\<rparr>"]
  by (simp add: session_init_def onDocumentLoadSuccess_def)

subsection \<open>Stream viewer\<close>

lemma youtubePlayerRef_onReady: "youtubePlayerRef (onReady s) = Some True"
  by (simp add: onReady_def expose_seekTo_def yt_seekTo_def Let_def)

lemma mode_onReady: "mode (onReady s) = mode s"
  by (simp add: onReady_def expose_seekTo_def yt_seekTo_def Let_def)

lemma seekTo_ready: "seekTo True timestamp s = s\<lparr>yt_position := timestamp, yt_playing := True\<rparr>"
  by (simp add: seekTo_def yt_seekTo_def yt_playVideo_def)

text \<open>
  C6. While the player has not reported ready (\<open>player\<close> is still \<open>null\<close> and the
  parent's ref holds no \<open>seekTo\<close>), a seek request, through the citation click or on the
  component's \<open>seekTo\<close> itself, returns the state it was given: position and play state
  are untouched and nothing is stored. The later \<open>onReady\<close> therefore yields the state
  it would have yielded without the request.
\<close>

theorem seek_before_ready_dropped:
  assumes "\<not> player s" and "youtubePlayerRef s = None"
  shows "handleSourceNavigate (YoutubeTarget timestamp videoUrl) s = s \<and>
         seekTo (player s) timestamp s = s \<and>
         onReady (handleSourceNavigate (YoutubeTarget timestamp videoUrl) s) = onReady s"
  using assms by (simp add: handleSourceNavigate_def seekTo_def)

theorem seek_before_ready_dropped_witness:
  "\<not> player (session_init MODE_YOUTUBE) \<and> youtubePlayerRef (session_init MODE_YOUTUBE) = None \<and>
   handleSourceNavigate (YoutubeTarget 125 ''u'') (session_init MODE_YOUTUBE) =
     session_init MODE_YOUTUBE \<and>
   yt_position (onReady (handleSourceNavigate (YoutubeTarget 125 ''u'') (session_init MODE_YOUTUBE))) = 0 \<and>
   \<not> yt_playing (onReady (handleSourceNavigate (YoutubeTarget 125 ''u'') (session_init MODE_YOUTUBE)))"
proof -
  have h: "\<not> player (session_init MODE_YOUTUBE)" "youtubePlayerRef (session_init MODE_YOUTUBE) = None"
    by (simp_all add: session_init_def)
  from seek_before_ready_dropped [OF h, of 125 "''u''"] h show ?thesis
    by (simp add: session_init_def onReady_def expose_seekTo_def)
qed

text \<open>
  C7. Once the player is ready, a seek moves the player to the requested timestamp and
  puts it into the playing state: for the component's \<open>seekTo\<close> with a player, for a
  citation click right after \<open>onReady\<close>, and for a citation click in any YouTube session
  whose ref holds the \<open>seekTo\<close> of a ready player.
\<close>

theorem seek_after_ready_plays:
  "seekTo True timestamp s = s\<lparr>yt_position := timestamp, yt_playing := True\<rparr> \<and>
   (mode s = MODE_YOUTUBE \<longrightarrow>
      handleSourceNavigate (YoutubeTarget timestamp videoUrl) (onReady s) =
        (onReady s)\<lparr>yt_position := timestamp, yt_playing := True\<rparr>) \<and>
   (mode s = MODE_YOUTUBE \<and> youtubePlayerRef s = Some True \<longrightarrow>
      yt_position (handleSourceNavigate (YoutubeTarget timestamp videoUrl) s) = timestamp \<and>
      yt_playing (handleSourceNavigate (YoutubeTarget timestamp videoUrl) s))"
proof (intro conjI impI)
  show "seekTo True timestamp s = s\<lparr>yt_position := timestamp, yt_playing := True\<rparr>"
    by (rule seekTo_ready)
  show "handleSourceNavigate (YoutubeTarget timestamp videoUrl) (onReady s) =
        (onReady s)\<lparr>yt_position := timestamp, yt_playing := True\<rparr>" if "mode s = MODE_YOUTUBE"
    using that by (simp add: handleSourceNavigate_def mode_onReady youtubePlayerRef_onReady seekTo_ready)
  show "yt_position (handleSourceNavigate (YoutubeTarget timestamp videoUrl) s) = timestamp"
    if "mode s = MODE_YOUTUBE \<and> youtubePlayerRef s = Some True"
    using that by (simp add: handleSourceNavigate_def seekTo_ready)
  show "yt_playing (handleSourceNavigate (YoutubeTarget timestamp videoUrl) s)"
    if "mode s = MODE_YOUTUBE \<and> youtubePlayerRef s = Some True"
    using that by (simp add: handleSourceNavigate_def seekTo_ready)
qed

theorem seek_after_ready_plays_witness:
  "mode (session_init MODE_YOUTUBE) = MODE_YOUTUBE \<and>
   mode (onReady (session_init MODE_YOUTUBE)) = MODE_YOUTUBE \<and>
   youtubePlayerRef (onReady (session_init MODE_YOUTUBE)) = Some True \<and>
   yt_position (handleSourceNavigate (YoutubeTarget 125 ''u'') (onReady (session_init MODE_YOUTUBE))) = 125 \<and>
   yt_playing (handleSourceNavigate (YoutubeTarget 125 ''u'') (onReady (session_init MODE_YOUTUBE)))"
  using seek_after_ready_plays [of 125 "session_init MODE_YOUTUBE" "''u''"]
    seek_after_ready_plays [of 125 "onReady (session_init MODE_YOUTUBE)" "''u''"]
  by (simp add: session_init_def onReady_def expose_seekTo_def)

subsection \<open>Document viewer\<close>

lemma setCurrentPage_commits:
  "currentPage s = pageNumber s \<or> currentPage s = 0 \<Longrightarrow> n \<noteq> 0 \<Longrightarrow>
     pageNumber (setCurrentPage n s) = n \<and> currentPage (setCurrentPage n s) = n"
  by (auto simp: setCurrentPage_def initialPage_effect_def pageNumber_effect_def Let_def)

lemma setCurrentPage_keeps:
  "mode (setCurrentPage n s) = mode s \<and> numPages (setCurrentPage n s) = numPages s \<and>
   pdf_loading (setCurrentPage n s) = pdf_loading s \<and> pdf_error (setCurrentPage n s) = pdf_error s"
  by (simp add: setCurrentPage_def initialPage_effect_def pageNumber_effect_def Let_def)

text \<open>
  Parent and viewer agree on the page, or the parent holds the \<open>0\<close> that the viewer
  declined: true of the mounted screen and kept by every handler.
\<close>

lemma in_sync_init: "currentPage (session_init m) = pageNumber (session_init m)"
  by (simp add: session_init_def)

lemma in_sync_setCurrentPage:
  "currentPage s = pageNumber s \<or> currentPage s = 0 \<Longrightarrow>
   currentPage (setCurrentPage n s) = pageNumber (setCurrentPage n s) \<or>
   currentPage (setCurrentPage n s) = 0"
  by (auto simp: setCurrentPage_def initialPage_effect_def pageNumber_effect_def Let_def)

lemma in_sync_setPageNumber:
  "currentPage s = pageNumber s \<or> currentPage s = 0 \<Longrightarrow>
   currentPage (setPageNumber p s) = pageNumber (setPageNumber p s) \<or>
   currentPage (setPageNumber p s) = 0"
  by (auto simp: setPageNumber_def pageNumber_effect_def)

lemma in_sync_handlers:
  assumes "currentPage s = pageNumber s \<or> currentPage s = 0"
  shows "currentPage (handleSourceNavigate target s) = pageNumber (handleSourceNavigate target s) \<or>
         currentPage (handleSourceNavigate target s) = 0"
    and "currentPage (goToPrevPage s) = pageNumber (goToPrevPage s) \<or> currentPage (goToPrevPage s) = 0"
    and "currentPage (goToNextPage s) = pageNumber (goToNextPage s) \<or> currentPage (goToNextPage s) = 0"
    and "currentPage (pageInput_onChange parsed s) = pageNumber (pageInput_onChange parsed s) \<or>
         currentPage (pageInput_onChange parsed s) = 0"
    and "currentPage (onDocumentLoadSuccess n s) = pageNumber (onDocumentLoadSuccess n s) \<or>
         currentPage (onDocumentLoadSuccess n s) = 0"
    and "currentPage (onDocumentLoadError s) = pageNumber (onDocumentLoadError s) \<or>
         currentPage (onDocumentLoadError s) = 0"
proof -
  show "currentPage (handleSourceNavigate target s) = pageNumber (handleSourceNavigate target s) \<or>
         currentPage (handleSourceNavigate target s) = 0"
    using assms in_sync_setCurrentPage [OF assms]
    by (cases target)
      (auto simp: handleSourceNavigate_def seekTo_def yt_seekTo_def yt_playVideo_def
        split: option.split)
  show "currentPage (goToPrevPage s) = pageNumber (goToPrevPage s) \<or> currentPage (goToPrevPage s) = 0"
    unfolding goToPrevPage_def by (rule in_sync_setPageNumber [OF assms])
  show "currentPage (goToNextPage s) = pageNumber (goToNextPage s) \<or> currentPage (goToNextPage s) = 0"
    unfolding goToNextPage_def by (rule in_sync_setPageNumber [OF assms])
  show "currentPage (pageInput_onChange parsed s) = pageNumber (pageInput_onChange parsed s) \<or>
         currentPage (pageInput_onChange parsed s) = 0"
    using assms in_sync_setPageNumber [OF assms]
    by (auto simp: pageInput_onChange_def split: option.split)
  show "currentPage (onDocumentLoadSuccess n s) = pageNumber (onDocumentLoadSuccess n s) \<or>
         currentPage (onDocumentLoadSuccess n s) = 0"
    using assms by (simp add: onDocumentLoadSuccess_def)
  show "currentPage (onDocumentLoadError s) = pageNumber (onDocumentLoadError s) \<or>
         currentPage (onDocumentLoadError s) = 0"
    using assms by (simp add: onDocumentLoadError_def)
qed

text \<open>
  The sibling paths keep the page inside the document: the page input ignores a number
  outside \<open>1..numPages\<close>, and the two arrow buttons stop at the ends.
\<close>

lemma pageInput_ignores_out_of_range:
  "page < 1 \<or> numPages_number s < page \<Longrightarrow> pageInput_onChange (Some page) s = s"
  by (auto simp: pageInput_onChange_def)

lemma goTo_in_range:
  "numPages s = Some n \<Longrightarrow> 1 \<le> pageNumber s \<Longrightarrow> pageNumber s \<le> n \<Longrightarrow>
     1 \<le> pageNumber (goToPrevPage s) \<and> pageNumber (goToPrevPage s) \<le> n \<and>
     1 \<le> pageNumber (goToNextPage s) \<and> pageNumber (goToNextPage s) \<le> n"
  by (auto simp: goToPrevPage_def goToNextPage_def setPageNumber_def pageNumber_effect_def
      numPages_number_def)

text \<open>
  C1. The claim is that a citation navigation to a page outside \<open>1..totalPages\<close> leaves
  the current page as it was. Evaluated on the code: in a loaded document of 5 pages
  showing page 1, a citation to page 9 makes the current page 9, and one to page -3
  makes it -3; the same 9 typed into the page input is ignored.
\<close>

theorem setPage_out_of_range_commits:
  "numPages (onDocumentLoadSuccess 5 (session_init MODE_PDF)) = Some 5 \<and>
   pageNumber (onDocumentLoadSuccess 5 (session_init MODE_PDF)) = 1 \<and>
   pageNumber (handleSourceNavigate (PdfTarget 9 ''a.pdf'')
                 (onDocumentLoadSuccess 5 (session_init MODE_PDF))) = 9 \<and>
   pageNumber (handleSourceNavigate (PdfTarget (- 3) ''a.pdf'')
                 (onDocumentLoadSuccess 5 (session_init MODE_PDF))) = - 3 \<and>
   pageNumber (pageInput_onChange (Some 9) (onDocumentLoadSuccess 5 (session_init MODE_PDF))) = 1"
  by (simp add: session_init_def onDocumentLoadSuccess_def handleSourceNavigate_def
      setCurrentPage_def initialPage_effect_def pageNumber_effect_def pageInput_onChange_def
      numPages_number_def)

lemma setCurrentPage_state:
  "currentPage s = pageNumber s \<or> currentPage s = 0 \<Longrightarrow> n \<noteq> 0 \<Longrightarrow>
     setCurrentPage n s = s\<lparr>currentPage := n, pageNumber := n\<rparr>"
  by (auto simp: setCurrentPage_def initialPage_effect_def pageNumber_effect_def Let_def)

lemma navigate_all_pdf_state:
  assumes "mode s = MODE_PDF" and "currentPage s = pageNumber s \<or> currentPage s = 0"
    and "pages \<noteq> []" and "\<forall>p \<in> set pages. p \<noteq> 0"
  shows "navigate_all s (map (\<lambda>p. PdfTarget p f) pages) =
           s\<lparr>currentPage := last pages, pageNumber := last pages\<rparr>"
  using assms
proof (induction pages arbitrary: s)
  case Nil
  then show ?case by simp
next
  case (Cons p pages)
  let ?s' = "s\<lparr>currentPage := p, pageNumber := p\<rparr>"
  have p: "p \<noteq> 0" using Cons.prems(4) by simp
  have step: "handleSourceNavigate (PdfTarget p f) s = ?s'"
    using Cons.prems(1) setCurrentPage_state [OF Cons.prems(2) p]
    by (simp add: handleSourceNavigate_def)
  show ?case
  proof (cases "pages = []")
    case True
    then show ?thesis by (simp add: step)
  next
    case False
    have "navigate_all ?s' (map (\<lambda>p. PdfTarget p f) pages) =
            ?s'\<lparr>currentPage := last pages, pageNumber := last pages\<rparr>"
      using Cons.prems(1,4) False by (intro Cons.IH) simp_all
    with False show ?thesis by (simp add: step)
  qed
qed

text \<open>
  C4, as stated, at a concrete input: the viewer is still loading and shows page 1; a
  citation to page 3 changes the current page to 3 at once, with the load still
  pending, and the parent's \<open>currentPage\<close> holds 3 as well.
\<close>

theorem setPage_before_load_not_buffered:
  "pdf_loading (session_init MODE_PDF) \<and>
   pageNumber (session_init MODE_PDF) = 1 \<and>
   pdf_loading (handleSourceNavigate (PdfTarget 3 ''a.pdf'') (session_init MODE_PDF)) \<and>
   numPages (handleSourceNavigate (PdfTarget 3 ''a.pdf'') (session_init MODE_PDF)) = None \<and>
   pageNumber (handleSourceNavigate (PdfTarget 3 ''a.pdf'') (session_init MODE_PDF)) = 3 \<and>
   currentPage (handleSourceNavigate (PdfTarget 3 ''a.pdf'') (session_init MODE_PDF)) = 3"
  by (simp add: session_init_def handleSourceNavigate_def setCurrentPage_def
      initialPage_effect_def pageNumber_effect_def)

text \<open>
  C4, amended. Take a PDF session that is still loading, in which parent and viewer
  agree on the page (or the parent holds the \<open>0\<close> that the viewer declined), as in every
  state the handlers reach, and a non-empty run of citation navigations to pages of the
  document that is being loaded (each within \<open>1..n\<close>, \<open>n\<close> the number of pages the load
  reports). The requests are not buffered: after the run the parent's \<open>currentPage\<close>
  and the viewer's \<open>pageNumber\<close> both hold the last page requested, nothing else in
  the session has changed, no earlier request is kept, and the document is still
  loading. Load completion sets \<open>numPages\<close>, \<open>pdf_loading\<close> and \<open>pdf_error\<close> and leaves
  the page alone, so on completion the current page is exactly the last page
  requested, a page of the document. Requests outside \<open>1..n\<close> are not covered.
\<close>

theorem setPage_before_load_latest_wins:
  assumes "mode s = MODE_PDF" and "pdf_loading s"
    and "currentPage s = pageNumber s \<or> currentPage s = 0"
    and "pages \<noteq> []" and "\<forall>p \<in> set pages. 1 \<le> p \<and> p \<le> n"
  shows "navigate_all s (map (\<lambda>p. PdfTarget p f) pages) =
           s\<lparr>currentPage := last pages, pageNumber := last pages\<rparr> \<and>
         pdf_loading (navigate_all s (map (\<lambda>p. PdfTarget p f) pages)) \<and>
         onDocumentLoadSuccess n (navigate_all s (map (\<lambda>p. PdfTarget p f) pages)) =
           s\<lparr>currentPage := last pages, pageNumber := last pages,
             numPages := Some n, pdf_loading := False, pdf_error := None\<rparr> \<and>
         1 \<le> pageNumber (onDocumentLoadSuccess n (navigate_all s (map (\<lambda>p. PdfTarget p f) pages))) \<and>
         pageNumber (onDocumentLoadSuccess n (navigate_all s (map (\<lambda>p. PdfTarget p f) pages))) \<le> n"
proof -
  have nz: "\<forall>p \<in> set pages. p \<noteq> 0"
    using assms(5) by auto
  have run: "navigate_all s (map (\<lambda>p. PdfTarget p f) pages) =
           s\<lparr>currentPage := last pages, pageNumber := last pages\<rparr>"
    by (rule navigate_all_pdf_state [OF assms(1,3,4) nz])
  have "last pages \<in> set pages"
    using assms(4) by simp
  then have rng: "1 \<le> last pages \<and> last pages \<le> n"
    using assms(5) by blast
  show ?thesis
    using rng assms(2) by (simp add: run onDocumentLoadSuccess_def)
qed

theorem setPage_before_load_latest_wins_witness:
  "mode (session_init MODE_PDF) = MODE_PDF \<and> pdf_loading (session_init MODE_PDF) \<and>
   currentPage (session_init MODE_PDF) = pageNumber (session_init MODE_PDF) \<and>
   [3, 8, 2 :: int] \<noteq> [] \<and>
   (1::int) \<le> 3 \<and> (3::int) \<le> 12 \<and> (1::int) \<le> 8 \<and> (8::int) \<le> 12 \<and>
   (1::int) \<le> 2 \<and> (2::int) \<le> 12 \<and>
   navigate_all (session_init MODE_PDF)
       [PdfTarget 3 ''a.pdf'', PdfTarget 8 ''a.pdf'', PdfTarget 2 ''a.pdf''] =
     (session_init MODE_PDF)\<lparr>currentPage := 2, pageNumber := 2\<rparr> \<and>
   pageNumber (navigate_all (session_init MODE_PDF)
       [PdfTarget 3 ''a.pdf'', PdfTarget 8 ''a.pdf'', PdfTarget 2 ''a.pdf'']) = 2 \<and>
   pdf_loading (navigate_all (session_init MODE_PDF)
       [PdfTarget 3 ''a.pdf'', PdfTarget 8 ''a.pdf'', PdfTarget 2 ''a.pdf'']) \<and>
   pageNumber (onDocumentLoadSuccess 12 (navigate_all (session_init MODE_PDF)
       [PdfTarget 3 ''a.pdf'', PdfTarget 8 ''a.pdf'', PdfTarget 2 ''a.pdf''])) = 2 \<and>
   currentPage (onDocumentLoadSuccess 12 (navigate_all (session_init MODE_PDF)
       [PdfTarget 3 ''a.pdf'', PdfTarget 8 ''a.pdf'', PdfTarget 2 ''a.pdf''])) = 2 \<and>
   numPages (onDocumentLoadSuccess 12 (navigate_all (session_init MODE_PDF)
       [PdfTarget 3 ''a.pdf'', PdfTarget 8 ''a.pdf'', PdfTarget 2 ''a.pdf''])) = Some 12"
proof -
  have h: "mode (session_init MODE_PDF) = MODE_PDF" "pdf_loading (session_init MODE_PDF)"
    "currentPage (session_init MODE_PDF) = pageNumber (session_init MODE_PDF) \<or>
     currentPage (session_init MODE_PDF) = 0"
    "[3, 8, 2 :: int] \<noteq> []" "\<forall>p \<in> set [3, 8, 2 :: int]. 1 \<le> p \<and> p \<le> 12"
    by (simp_all add: session_init_def)
  from setPage_before_load_latest_wins [OF h, of "''a.pdf''"] h show ?thesis
    by (simp add: session_init_def onDocumentLoadSuccess_def handleSourceNavigate_def
        setCurrentPage_def initialPage_effect_def pageNumber_effect_def)
qed

subsection \<open>Split surface\<close>

lemma pointer_step_bounds:
  "minWidth \<le> leftWidth s \<and> leftWidth s \<le> maxWidth \<Longrightarrow>
   minWidth \<le> leftWidth (pointer_step minWidth maxWidth s ev) \<and>
   leftWidth (pointer_step minWidth maxWidth s ev) \<le> maxWidth"
  by (cases ev)
    (auto simp: handleMouseMove_def onMouseDown_def handleMouseUp_def Let_def split: option.split)

lemma pointer_run_bounds:
  "minWidth \<le> leftWidth s \<and> leftWidth s \<le> maxWidth \<Longrightarrow>
   minWidth \<le> leftWidth (pointer_run minWidth maxWidth s evs) \<and>
   leftWidth (pointer_run minWidth maxWidth s evs) \<le> maxWidth"
  unfolding pointer_run_def
proof (induction evs arbitrary: s)
  case Nil
  then show ?case by simp
next
  case (Cons ev evs)
  show ?case
    unfolding foldl_Cons
    by (rule Cons.IH) (rule pointer_step_bounds [OF Cons.prems])
qed

text \<open>
  C9. A pointer move handled while dragging (over a container of non-zero width)
  commits the newly computed percentage exactly when it lies within
  \<open>[minWidth, maxWidth]\<close> and otherwise returns the state unchanged, with no clamping
  to a bound. Hence, from a \<open>defaultLeftWidth\<close> within the bounds, the left width stays
  within the bounds after any sequence of pointer events.
\<close>

theorem drag_keeps_width_in_bounds:
  assumes "minWidth \<le> defaultLeftWidth" and "defaultLeftWidth \<le> maxWidth"
  shows "minWidth \<le> leftWidth (pointer_run minWidth maxWidth (SplitView_init defaultLeftWidth) evs) \<and>
         leftWidth (pointer_run minWidth maxWidth (SplitView_init defaultLeftWidth) evs) \<le> maxWidth \<and>
         (isDragging s \<and> width \<noteq> 0 \<longrightarrow>
            handleMouseMove minWidth maxWidth (Some (left, width)) clientX s =
              (if minWidth \<le> (clientX - left) / width * 100 \<and> (clientX - left) / width * 100 \<le> maxWidth
               then s\<lparr>leftWidth := (clientX - left) / width * 100\<rparr> else s))"
proof -
  have "minWidth \<le> leftWidth (SplitView_init defaultLeftWidth) \<and>
        leftWidth (SplitView_init defaultLeftWidth) \<le> maxWidth"
    using assms by (simp add: SplitView_init_def)
  from pointer_run_bounds [OF this] show ?thesis
    by (simp add: handleMouseMove_def Let_def)
qed

theorem drag_keeps_width_in_bounds_witness:
  "(30::real) \<le> 50 \<and> (50::real) \<le> 70 \<and>
   leftWidth (pointer_run 30 70 (SplitView_init 50)
      [MouseDown, MouseMove (Some (0, 1000)) 400, MouseMove (Some (0, 1000)) 900, MouseUp,
       MouseMove (Some (0, 1000)) 600]) = 40 \<and>
   isDragging \<lparr>leftWidth = 40, isDragging = True\<rparr> \<and> (1000::real) \<noteq> 0 \<and>
   leftWidth (handleMouseMove 30 70 (Some (0, 1000)) 900 \<lparr>leftWidth = 40, isDragging = True\<rparr>) = 40 \<and>
   leftWidth (handleMouseMove 30 70 (Some (0, 1000)) 650 \<lparr>leftWidth = 40, isDragging = True\<rparr>) = 65"
proof -
  have h: "(30::real) \<le> 50" "(50::real) \<le> 70" by simp_all
  note t = drag_keeps_width_in_bounds [OF h]
  show ?thesis
    using h t [of "[MouseDown, MouseMove (Some (0, 1000)) 400, MouseMove (Some (0, 1000)) 900, MouseUp,
       MouseMove (Some (0, 1000)) 600]" "\<lparr>leftWidth = 40, isDragging = True\<rparr>" 1000 0 900]
      t [of "[]" "\<lparr>leftWidth = 40, isDragging = True\<rparr>" 1000 0 650]
    by (simp add: pointer_run_def SplitView_init_def onMouseDown_def handleMouseUp_def
        handleMouseMove_def Let_def)
qed

end
